theory Spec2Isabelle
  imports Complex_Main
begin

section \<open>JavaScript values and numbers\<close>

text \<open>
  A JavaScript number is an IEEE-754 double: a finite value, one of the two infinities,
  or NaN. A finite double is carried as the real number it denotes.
\<close>

datatype jsnum = Fin real | PosInf | NegInf | NaN

text \<open>
  The values a row field can hold: what \<open>JSON.parse\<close> and the input handlers put
  there (objects and arrays are not modelled).
\<close>

datatype jsval = JUndefined | JNull | JBool bool | JNum jsnum | JStr string

text \<open>
  \<open>Number(v)\<close>. The conversion of a string to a number is the language's own
  \<open>StringToNumber\<close>; it is taken as the parameter \<open>sn\<close>.
\<close>

fun Number_js :: "(string \<Rightarrow> jsnum) \<Rightarrow> jsval \<Rightarrow> jsnum" where
  "Number_js sn JUndefined = NaN"
| "Number_js sn JNull = Fin 0"
| "Number_js sn (JBool b) = Fin (if b then 1 else 0)"
| "Number_js sn (JNum n) = n"
| "Number_js sn (JStr s) = sn s"


text \<open>
  \<^verbatim>\<open>const toNum = (v) => {
    if (v === null || v === undefined || v === "") return 0;
    const n = Number(v);
    return Number.isFinite(n) ? n : 0; };\<close>
  The result is always a finite number, hence a real.
\<close>

definition toNum :: "(string \<Rightarrow> jsnum) \<Rightarrow> jsval \<Rightarrow> real" where
  "toNum sn v =
     (if v = JNull \<or> v = JUndefined \<or> v = JStr [] then 0
      else (case Number_js sn v of Fin x \<Rightarrow> x | _ \<Rightarrow> 0))"

text \<open>
  The arithmetic of doubles is not defined here; it is the parameter \<open>ops\<close>:
  \<open>f_mul\<close> and \<open>f_div\<close> are the product and the quotient of two finite doubles
  (rounded to a double, or an infinity on overflow, or NaN), and \<open>f_near\<close> is the double
  that a decimal numeral denotes (the one nearest to its value).
\<close>

record float_ops =
  f_mul :: "real \<Rightarrow> real \<Rightarrow> jsnum"
  f_div :: "real \<Rightarrow> real \<Rightarrow> jsnum"
  f_near :: "real \<Rightarrow> real"

text \<open>
  The quotient of a number by a finite double. An infinity divided by a finite double
  is an infinity (a zero divisor counts as positive), and NaN stays NaN.
\<close>

fun js_div :: "float_ops \<Rightarrow> jsnum \<Rightarrow> real \<Rightarrow> jsnum" where
  "js_div ops (Fin p) a = f_div ops p a"
| "js_div ops PosInf a = (if a < 0 then NegInf else PosInf)"
| "js_div ops NegInf a = (if a < 0 then PosInf else NegInf)"
| "js_div ops NaN a = NaN"

text \<open>
  The value of the text \<open>x.toFixed(2)\<close> for a finite \<open>x\<close> below \<open>10^21\<close> in
  magnitude: \<open>toFixed\<close> picks the integer \<open>n\<close> with \<open>n / 100\<close> closest to the
  magnitude of \<open>x\<close>, the larger one on a tie, and keeps the sign.
\<close>

definition toFixed2 :: "real \<Rightarrow> real" where
  "toFixed2 x =
     (if x < 0 then - (of_int \<lfloor>(- x) * 100 + 1 / 2\<rfloor> / 100)
      else of_int \<lfloor>x * 100 + 1 / 2\<rfloor> / 100)"

text \<open>
  \<open>+(x.toFixed(2))\<close>: the text of \<open>toFixed\<close> read back as a number. From \<open>10^21\<close>
  on, and for the infinities and NaN, \<open>toFixed\<close> prints the number itself, which reads
  back as the same number.
\<close>

fun plus_toFixed2 :: "float_ops \<Rightarrow> jsnum \<Rightarrow> jsnum" where
  "plus_toFixed2 ops (Fin q) =
     (if 10 ^ 21 \<le> \<bar>q\<bar> then Fin q else Fin (f_near ops (toFixed2 q)))"
| "plus_toFixed2 ops PosInf = PosInf"
| "plus_toFixed2 ops NegInf = NegInf"
| "plus_toFixed2 ops NaN = NaN"

text \<open>
  \<^verbatim>\<open>function computeProposedADA(grazingDays, herdSize, acreage) {
    const g = Math.max(0, toNum(grazingDays));
    const h = Math.max(0, toNum(herdSize));
    const a = Math.max(0.000001, toNum(acreage));
    return +(((g * h) / a).toFixed(2)); }\<close>
  The literal \<open>0.000001\<close> is the double nearest to that decimal.
\<close>

definition computeProposedADA :: "float_ops \<Rightarrow> (string \<Rightarrow> jsnum) \<Rightarrow> jsval \<Rightarrow> jsval \<Rightarrow> jsval \<Rightarrow> jsnum" where
  "computeProposedADA ops sn grazingDays herdSize acreage =
     (let g = max 0 (toNum sn grazingDays);
          h = max 0 (toNum sn herdSize);
          a = max (f_near ops (1 / 1000000)) (toNum sn acreage)
      in plus_toFixed2 ops (js_div ops (f_mul ops g h) a))"

section \<open>Calendar dates\<close>

text \<open>
  A calendar day of the proleptic Gregorian calendar, as the fields of a JavaScript
  \<open>Date\<close> give it: \<open>getFullYear\<close> (year 0 is 1 BC), the month \<open>1..12\<close> and the day
  of the month.
\<close>

datatype civil = Civil (year: int) (month: nat) (mday: nat)

definition is_leap :: "int \<Rightarrow> bool" where
  "is_leap y = (y mod 4 = 0 \<and> (y mod 100 \<noteq> 0 \<or> y mod 400 = 0))"

definition days_in_month :: "int \<Rightarrow> nat \<Rightarrow> nat" where
  "days_in_month y m =
     (if m = 2 then (if is_leap y then 29 else 28)
      else if m = 4 \<or> m = 6 \<or> m = 9 \<or> m = 11 then 30 else 31)"

definition valid_civil :: "civil \<Rightarrow> bool" where
  "valid_civil c = (1 \<le> month c \<and> month c \<le> 12 \<and> 1 \<le> mday c \<and> mday c \<le> days_in_month (year c) (month c))"

definition next_day :: "civil \<Rightarrow> civil" where
  "next_day c =
     (if mday c < days_in_month (year c) (month c) then Civil (year c) (month c) (mday c + 1)
      else if month c < 12 then Civil (year c) (month c + 1) 1
      else Civil (year c + 1) 1 1)"

definition prev_day :: "civil \<Rightarrow> civil" where
  "prev_day c =
     (if 1 < mday c then Civil (year c) (month c) (mday c - 1)
      else if 1 < month c then Civil (year c) (month c - 1) (days_in_month (year c) (month c - 1))
      else Civil (year c - 1) 12 31)"

text \<open>The day \<open>k\<close> days after (before, for negative \<open>k\<close>) a calendar day.\<close>

function shift :: "civil \<Rightarrow> int \<Rightarrow> civil" where
  "shift c k =
     (if k = 0 then c
      else if 0 < k then shift (next_day c) (k - 1)
      else shift (prev_day c) (k + 1))"
  by pat_completeness auto
termination
  by (relation "measure (\<lambda>(c, k). nat \<bar>k\<bar>)") auto

declare shift.simps [simp del]

text \<open>The number of days from 1970-01-01 to a calendar day (the day part of the time value).\<close>

definition days_before_year :: "int \<Rightarrow> int" where
  "days_before_year y =
     365 * (y - 1) + (y - 1) div 4 - (y - 1) div 100 + (y - 1) div 400 - 719162"

definition days_before_month :: "int \<Rightarrow> nat \<Rightarrow> nat" where
  "days_before_month y m = sum_list (map (days_in_month y) [1..<m])"

definition day_number :: "civil \<Rightarrow> int" where
  "day_number c = days_before_year (year c) + int (days_before_month (year c) (month c)) + int (mday c) - 1"

section \<open>The date library\<close>

text \<open>
  The functions of \<open>date-fns\<close> that the planner imports, in the behaviour of its current
  releases. A \<open>Date\<close> is either invalid or a calendar day with the milliseconds since
  local midnight (the time zone is taken to have a constant offset). Its time value must
  lie within 100,000,000 days of 1970-01-01; a \<open>Date\<close> set beyond that is invalid.
\<close>

datatype jsdate = InvalidDate | Date civil nat

definition in_time_range :: "int \<Rightarrow> bool" where
  "in_time_range n = (- 100000000 \<le> n \<and> n \<le> 100000000)"

fun isValid :: "jsdate \<Rightarrow> bool" where
  "isValid InvalidDate = False"
| "isValid (Date c t) = True"

definition timeval :: "civil \<Rightarrow> nat \<Rightarrow> int" where
  "timeval c t = day_number c * 86400000 + int t"

text \<open>The value of a decimal digit, by its character code (\<open>0\<close> is 48).\<close>

definition digit_val :: "char \<Rightarrow> nat option" where
  "digit_val c =
     (let n = (of_char c :: nat) in if 48 \<le> n \<and> n \<le> 57 then Some (n - 48) else None)"

fun digits_val :: "string \<Rightarrow> nat option" where
  "digits_val [] = Some 0"
| "digits_val (c # cs) =
     (case digit_val c of None \<Rightarrow> None
      | Some d \<Rightarrow> (case digits_val cs of None \<Rightarrow> None
                   | Some r \<Rightarrow> Some (d * 10 ^ length cs + r)))"

text \<open>
  The extended calendar form \<open>YYYY-MM-DD\<close>: four digits, two digits, two digits.
\<close>

fun ymd_form :: "string \<Rightarrow> (nat \<times> nat \<times> nat) option" where
  "ymd_form [y1, y2, y3, y4, s1, m1, m2, s2, d1, d2] =
     (if s1 = CHR ''-'' \<and> s2 = CHR ''-'' then
        (case (digits_val [y1, y2, y3, y4], digits_val [m1, m2], digits_val [d1, d2]) of
           (Some y, Some m, Some d) \<Rightarrow> Some (y, m, d)
         | _ \<Rightarrow> None)
      else None)"
| "ymd_form s = None"

text \<open>
  \<open>parseISO\<close>. A string in calendar form is a local midnight when its month and day
  exist (\<open>validateDate\<close>), and invalid otherwise. The library reads further ISO 8601
  forms (basic, week and ordinal dates, times and zones); what it makes of a string that
  is not in calendar form is the parameter \<open>ext\<close>.
\<close>

definition parseISO :: "(string \<Rightarrow> jsdate) \<Rightarrow> string \<Rightarrow> jsdate" where
  "parseISO ext s =
     (case ymd_form s of
        Some (y, m, d) \<Rightarrow>
          (if valid_civil (Civil (int y) m d) then Date (Civil (int y) m d) 0 else InvalidDate)
      | None \<Rightarrow> ext s)"

fun digit_char :: "nat \<Rightarrow> char" where
  "digit_char n = ''0123456789'' ! n"

function dec :: "nat \<Rightarrow> string" where
  "dec n = (if n < 10 then [digit_char n] else dec (n div 10) @ [digit_char (n mod 10)])"
  by pat_completeness auto
termination
  by (relation "measure (\<lambda>n. n)") auto

declare dec.simps [simp del]

text \<open>\<open>addLeadingZeros\<close> of a non-negative number: \<open>padStart(targetLength, "0")\<close>.\<close>

definition addLeadingZeros :: "nat \<Rightarrow> nat \<Rightarrow> string" where
  "addLeadingZeros n targetLength =
     replicate (targetLength - length (dec n)) (CHR ''0'') @ dec n"

text \<open>
  \<open>format(d, "yyyy-MM-dd")\<close>. The token \<open>yyyy\<close> prints the year of the era, which for a
  year \<open>y \<le> 0\<close> is \<open>1 - y\<close>, with at least four digits. An invalid date raises
  \<open>RangeError\<close>. (The other two errors are raised while the map is drawn: \<open>TypeError\<close>
  by reading a property of \<open>undefined\<close>, \<open>TurfError\<close> by the geometry library.)
\<close>

datatype error = RangeError | TypeError | TurfError

definition format_civil :: "civil \<Rightarrow> string" where
  "format_civil c =
     addLeadingZeros (nat (if 0 < year c then year c else 1 - year c)) 4
       @ ''-'' @ addLeadingZeros (month c) 2 @ ''-'' @ addLeadingZeros (mday c) 2"

fun format_ymd :: "jsdate \<Rightarrow> error + string" where
  "format_ymd InvalidDate = Inl RangeError"
| "format_ymd (Date c t) = Inr (format_civil c)"

text \<open>
  \<open>addDays(date, amount)\<close>: the date itself when the amount is zero, else
  \<open>setDate(getDate() + amount)\<close>, which truncates its argument towards zero, moves to
  that day counted from the first of the month and keeps the time of day.
\<close>

definition trunc :: "real \<Rightarrow> int" where
  "trunc x = (if x < 0 then \<lceil>x\<rceil> else \<lfloor>x\<rfloor>)"

definition setDate :: "civil \<Rightarrow> nat \<Rightarrow> real \<Rightarrow> jsdate" where
  "setDate c t dt =
     (let k = trunc dt - int (mday c)
      in if in_time_range (day_number c + k) then Date (shift c k) t else InvalidDate)"

fun addDays :: "jsdate \<Rightarrow> real \<Rightarrow> jsdate" where
  "addDays InvalidDate amount = InvalidDate"
| "addDays (Date c t) amount =
     (if amount = 0 then Date c t else setDate c t (real (mday c) + amount))"

text \<open>
  \<open>areIntervalsOverlapping(left, right, {inclusive: true})\<close>: each interval's ends are
  put in order, and the comparisons are on time values, so that an invalid date (whose
  time value is NaN) makes the result false.
\<close>

fun areIntervalsOverlapping :: "jsdate \<times> jsdate \<Rightarrow> jsdate \<times> jsdate \<Rightarrow> bool" where
  "areIntervalsOverlapping (Date c1 t1, Date c2 t2) (Date c3 t3, Date c4 t4) =
     (let leftStart = min (timeval c1 t1) (timeval c2 t2);
          leftEnd = max (timeval c1 t1) (timeval c2 t2);
          rightStart = min (timeval c3 t3) (timeval c4 t4);
          rightEnd = max (timeval c3 t3) (timeval c4 t4)
      in leftStart \<le> rightEnd \<and> rightStart \<le> leftEnd)"
| "areIntervalsOverlapping l r = False"


section \<open>Date helpers of the planner\<close>

text \<open>
  \<^verbatim>\<open>function toISO(dateStr) {
    if (!dateStr) return "";
    const d = parseISO(dateStr);
    return isValid(d) ? format(d, "yyyy-MM-dd") : ""; }\<close>
\<close>

definition toISO :: "(string \<Rightarrow> jsdate) \<Rightarrow> string \<Rightarrow> string" where
  "toISO ext dateStr =
     (if dateStr = [] then []
      else (case parseISO ext dateStr of InvalidDate \<Rightarrow> [] | Date c t \<Rightarrow> format_civil c))"

text \<open>
  \<^verbatim>\<open>function addDaysISO(iso, days) {
    const d = parseISO(iso);
    if (!isValid(d)) return "";
    return format(addDays(d, days), "yyyy-MM-dd"); }\<close>
  The result of \<open>addDays\<close> is formatted unchecked, so a date pushed out of the time
  range raises.
\<close>

definition addDaysISO :: "(string \<Rightarrow> jsdate) \<Rightarrow> string \<Rightarrow> real \<Rightarrow> error + string" where
  "addDaysISO ext isoStr days =
     (let d = parseISO ext isoStr
      in if \<not> isValid d then Inr [] else format_ymd (addDays d days))"

text \<open>The decimal text of an integer, as a template literal prints it.\<close>

definition int_text :: "int \<Rightarrow> string" where
  "int_text y = (if y < 0 then CHR ''-'' # dec (nat (- y)) else dec (nat y))"

text \<open>
  \<^verbatim>\<open>function overlapsSummerWindow(startISO, endISO) {
    const s = parseISO(startISO);
    const e = parseISO(endISO);
    if (!isValid(s) || !isValid(e)) return false;
    const sy = s.getFullYear(), ey = e.getFullYear();
    for (let y = sy; y <= ey; y++) {
      const summerStart = parseISO(`${y}-07-15`);
      const summerEnd = parseISO(`${y}-09-15`);
      if (areIntervalsOverlapping({ start: s, end: e },
            { start: summerStart, end: summerEnd }, { inclusive: true })) return true;
    }
    return false; }\<close>
\<close>

function summer_loop :: "(string \<Rightarrow> jsdate) \<Rightarrow> jsdate \<Rightarrow> jsdate \<Rightarrow> int \<Rightarrow> int \<Rightarrow> bool" where
  "summer_loop ext s e y ey =
     (if y \<le> ey then
        (let summerStart = parseISO ext (int_text y @ ''-07-15'');
             summerEnd = parseISO ext (int_text y @ ''-09-15'')
         in if areIntervalsOverlapping (s, e) (summerStart, summerEnd) then True
            else summer_loop ext s e (y + 1) ey)
      else False)"
  by pat_completeness auto
termination
  by (relation "measure (\<lambda>(ext, s, e, y, ey). nat (ey + 1 - y))") auto

declare summer_loop.simps [simp del]

definition overlapsSummerWindow :: "(string \<Rightarrow> jsdate) \<Rightarrow> string \<Rightarrow> string \<Rightarrow> bool" where
  "overlapsSummerWindow ext startISO endISO =
     (case (parseISO ext startISO, parseISO ext endISO) of
        (Date cs ts, Date ce te) \<Rightarrow> summer_loop ext (Date cs ts) (Date ce te) (year cs) (year ce)
      | _ \<Rightarrow> False)"

section \<open>Rows and the schedule\<close>

text \<open>A row of the plan, with the fields of \<open>newRow\<close>.\<close>

record row =
  row_id :: string
  pasture :: string
  acreage :: jsval
  herdSize :: jsval
  prevPlannedADA :: jsval
  prevActualADA :: jsval
  estNativeADA :: jsval
  estPerennialADA :: jsval
  grazingDays :: jsval
  proposedADA :: jsval
  startDate :: string
  endDate :: string
  row_notes :: string

text \<open>
  \<^verbatim>\<open>function recompute(list, planStart) {
    const out = list.map(r => ({ ...r }));
    for (const r of out) r.proposedADA = computeProposedADA(r.grazingDays, r.herdSize, r.acreage);
    let currentStart = toISO(planStart);
    for (let i = 0; i < out.length; i++) {
      const r = out[i];
      if (!currentStart) { r.startDate = ""; r.endDate = ""; continue; }
      const days = Math.max(0, toNum(r.grazingDays));
      r.startDate = currentStart;
      r.endDate = days > 0 ? addDaysISO(currentStart, days - 1) : currentStart;
      currentStart = addDaysISO(r.endDate, 1);
    }
    return out; }\<close>
  The second loop is \<open>schedule\<close>, with the cursor \<open>currentStart\<close> as its state; an
  exception of \<open>addDaysISO\<close> leaves the function.
\<close>

definition set_ada :: "float_ops \<Rightarrow> (string \<Rightarrow> jsnum) \<Rightarrow> row \<Rightarrow> row" where
  "set_ada ops sn r =
     r\<lparr>proposedADA := JNum (computeProposedADA ops sn (grazingDays r) (herdSize r) (acreage r))\<rparr>"

fun schedule :: "(string \<Rightarrow> jsnum) \<Rightarrow> (string \<Rightarrow> jsdate) \<Rightarrow> string \<Rightarrow> row list \<Rightarrow> error + row list" where
  "schedule sn ext currentStart [] = Inr []"
| "schedule sn ext currentStart (r # rs) =
     (if currentStart = [] then
        (case schedule sn ext currentStart rs of
           Inl err \<Rightarrow> Inl err
         | Inr rs' \<Rightarrow> Inr (r\<lparr>startDate := [], endDate := []\<rparr> # rs'))
      else
        (let days = max 0 (toNum sn (grazingDays r))
         in case (if days > 0 then addDaysISO ext currentStart (days - 1) else Inr currentStart) of
              Inl err \<Rightarrow> Inl err
            | Inr en \<Rightarrow>
                (case addDaysISO ext en 1 of
                   Inl err \<Rightarrow> Inl err
                 | Inr nextStart \<Rightarrow>
                     (case schedule sn ext nextStart rs of
                        Inl err \<Rightarrow> Inl err
                      | Inr rs' \<Rightarrow> Inr (r\<lparr>startDate := currentStart, endDate := en\<rparr> # rs')))))"

definition recompute ::
  "float_ops \<Rightarrow> (string \<Rightarrow> jsnum) \<Rightarrow> (string \<Rightarrow> jsdate) \<Rightarrow> row list \<Rightarrow> string \<Rightarrow> error + row list" where
  "recompute ops sn ext list planStart =
     schedule sn ext (toISO ext planStart) (map (set_ada ops sn) list)"


section \<open>The static map\<close>

text \<open>
  A GeoJSON feature with its name property and its geometry (\<open>None\<close> is the geometry
  \<open>null\<close>). Coordinates and drawing positions are pairs of numbers.
\<close>

type_synonym point = "real \<times> real"

datatype geometry = Polygon "point list list" | MultiPolygon "point list list list" | OtherGeometry

record feature =
  label :: string
  geometry :: "geometry option"

text \<open>
  \<open>featureByPasture\<close> is a plain object. Reading it at a key gives the feature stored
  under the key, or another value that is not a feature (a member the object inherits,
  such as \<open>constructor\<close>), or \<open>undefined\<close>. The table is therefore a function from
  keys to \<open>member option\<close>, with \<open>None\<close> for \<open>undefined\<close>.
\<close>

datatype member = Feature feature | OtherObject

record anchor =
  name :: string
  x_pos :: real
  y_pos :: real

record segment =
  key :: string
  d_path :: "point \<times> point"
  num :: nat
  labelPos :: point

record scene =
  polyPaths :: "point list list list"
  segments :: "segment list"
  routeAnchors :: "anchor list"

text \<open>
  \<open>featureByPasture[String(r.pasture || '').toLowerCase()]\<close>. The lower-casing of a
  string is the language's; it is the parameter \<open>lc\<close>.
\<close>

definition lookup_feature :: "(string \<Rightarrow> string) \<Rightarrow> (string \<Rightarrow> member option) \<Rightarrow> row \<Rightarrow> member option" where
  "lookup_feature lc featureByPasture r = featureByPasture (lc (pasture r))"

text \<open>
  \<^verbatim>\<open>const picked = rows.map(r => featureByPasture[...]).filter(Boolean);
  return picked.length ? picked : allFeatures;\<close>
\<close>

definition features ::
  "(string \<Rightarrow> string) \<Rightarrow> row list \<Rightarrow> (string \<Rightarrow> member option) \<Rightarrow> feature list \<Rightarrow> member list" where
  "features lc rows featureByPasture allFeatures =
     (let picked = List.map_filter (lookup_feature lc featureByPasture) rows
      in if picked \<noteq> [] then picked else map Feature allFeatures)"

text \<open>
  \<open>turf.bbox(turf.featureCollection(features))\<close> reads the geometry of every member and
  the coordinates of every geometry that is not \<open>null\<close>. A member that is not a feature
  has no geometry, and reading its coordinates raises a \<open>TypeError\<close>. The function
  returns the features when nothing is raised.
\<close>

fun bbox_features :: "member list \<Rightarrow> error + feature list" where
  "bbox_features [] = Inr []"
| "bbox_features (Feature f # ms) =
     (case bbox_features ms of Inl err \<Rightarrow> Inl err | Inr fs \<Rightarrow> Inr (f # fs))"
| "bbox_features (OtherObject # ms) = Inl TypeError"

text \<open>
  \<open>pathFromPolygonCoords\<close>: one closed sub-path for each ring that is not empty, through
  the projected points of the ring. The path is kept as its list of points instead of
  the text of the \<open>d\<close> attribute.
\<close>

definition pathFromPolygonCoords :: "(point \<Rightarrow> point) \<Rightarrow> point list list \<Rightarrow> point list list" where
  "pathFromPolygonCoords projectXY rings = map (map projectXY) (filter (\<lambda>ring. ring \<noteq> []) rings)"

fun feature_paths :: "(point \<Rightarrow> point) \<Rightarrow> feature \<Rightarrow> point list list list" where
  "feature_paths projectXY f =
     (case geometry f of
        None \<Rightarrow> []
      | Some (Polygon coordinates) \<Rightarrow> [pathFromPolygonCoords projectXY coordinates]
      | Some (MultiPolygon coordinates) \<Rightarrow> map (pathFromPolygonCoords projectXY) coordinates
      | Some OtherGeometry \<Rightarrow> [])"

text \<open>\<open>rows.filter(r => (Number(r?.grazingDays) || 0) > 0)\<close>\<close>

definition is_active :: "(string \<Rightarrow> jsnum) \<Rightarrow> row \<Rightarrow> bool" where
  "is_active sn r =
     (case Number_js sn (grazingDays r) of
        Fin v \<Rightarrow> 0 < v
      | PosInf \<Rightarrow> True
      | NegInf \<Rightarrow> False
      | NaN \<Rightarrow> False)"

text \<open>
  \<^verbatim>\<open>const routeAnchors = activeRows.map(r => {
    const f = featureByPasture[String(r.pasture || '').toLowerCase()];
    if (!f) return null;
    const cm = turf.centerOfMass(f);
    const [lng, lat] = cm.geometry.coordinates;
    const [x, y] = projectXY([lng, lat]);
    return { name: r.pasture, x, y };
  }).filter(Boolean);\<close>
  \<open>turf.centerOfMass\<close> is the parameter \<open>centerOfMass\<close>; it gives \<open>None\<close> where the
  library raises (as it does for a feature whose geometry is \<open>null\<close>), and it raises for
  a value that is not a feature. The call is not guarded, so the exception leaves the
  function.
\<close>

fun route_anchors ::
  "(feature \<Rightarrow> point option) \<Rightarrow> (point \<Rightarrow> point) \<Rightarrow> (row \<Rightarrow> member option) \<Rightarrow> row list \<Rightarrow> error + anchor list" where
  "route_anchors centerOfMass projectXY look [] = Inr []"
| "route_anchors centerOfMass projectXY look (r # rs) =
     (case look r of
        None \<Rightarrow> route_anchors centerOfMass projectXY look rs
      | Some OtherObject \<Rightarrow> Inl TurfError
      | Some (Feature f) \<Rightarrow>
          (case centerOfMass f of
             None \<Rightarrow> Inl TurfError
           | Some cm \<Rightarrow>
               (case route_anchors centerOfMass projectXY look rs of
                  Inl err \<Rightarrow> Inl err
                | Inr anchors \<Rightarrow>
                    Inr (\<lparr>name = pasture r, x_pos = fst (projectXY cm), y_pos = snd (projectXY cm)\<rparr>
                         # anchors))))"

text \<open>
  \<^verbatim>\<open>const shiftTowards = ([x1, y1], [x2, y2], d = 0) => {
    const dx2 = x2 - x1, dy2 = y2 - y1;
    const L = Math.hypot(dx2, dy2) || 1;
    return [x1 + (dx2 / L) * d, y1 + (dy2 / L) * d]; };\<close>
\<close>

definition hypot_or_1 :: "real \<Rightarrow> real \<Rightarrow> real" where
  "hypot_or_1 a b = (let L = sqrt (a * a + b * b) in if L = 0 then 1 else L)"

definition shiftTowards :: "point \<Rightarrow> point \<Rightarrow> real \<Rightarrow> point" where
  "shiftTowards p q amount =
     (let dx2 = fst q - fst p; dy2 = snd q - snd p; L = hypot_or_1 dx2 dy2
      in (fst p + (dx2 / L) * amount, snd p + (dy2 / L) * amount))"

text \<open>
  The body of the loop \<open>for (let i = 0; i < routeAnchors.length - 1; i++)\<close>, which pushes
  \<open>{ key: `seg-${i}`, d, num: i + 1, labelPos: [nxp, nyp] }\<close>, and the loop itself.
\<close>

definition make_segment :: "nat \<Rightarrow> anchor \<Rightarrow> anchor \<Rightarrow> segment" where
  "make_segment i a b =
     (let s = shiftTowards (x_pos a, y_pos a) (x_pos b, y_pos b) 10;
          mx = (fst s + x_pos b) / 2;
          my = (snd s + y_pos b) / 2;
          dx3 = x_pos b - fst s;
          dy3 = y_pos b - snd s;
          L = hypot_or_1 dx3 dy3;
          nx = - dy3 / L;
          ny = dx3 / L
      in \<lparr>key = ''seg-'' @ dec i, d_path = (s, (x_pos b, y_pos b)), num = i + 1,
          labelPos = (mx + nx * 0, my + ny * 0)\<rparr>)"

fun segments_from :: "nat \<Rightarrow> anchor list \<Rightarrow> segment list" where
  "segments_from i (a # b # rest) = make_segment i a b # segments_from (i + 1) (b # rest)"
| "segments_from i rest = []"

text \<open>
  \<open>StaticMap\<close>, in the order of the code: the features to draw; nothing is drawn
  (\<open>None\<close>) when there is none; the bounding box; the outlines; the route anchors; the
  segments. The projection fitted to the bounding box is the parameter \<open>project\<close>. The
  labels of the features off the route are not part of the result; their loop guards its
  call of \<open>turf.centerOfMass\<close> and raises nothing.
\<close>

definition StaticMap ::
  "(string \<Rightarrow> string) \<Rightarrow> (string \<Rightarrow> jsnum) \<Rightarrow> (feature \<Rightarrow> point option) \<Rightarrow>
   (feature list \<Rightarrow> point \<Rightarrow> point) \<Rightarrow>
   row list \<Rightarrow> (string \<Rightarrow> member option) \<Rightarrow> feature list \<Rightarrow> error + scene option" where
  "StaticMap lc sn centerOfMass project rows featureByPasture allFeatures =
     (let fs = features lc rows featureByPasture allFeatures
      in if fs = [] then Inr None
         else
           (case bbox_features fs of
              Inl err \<Rightarrow> Inl err
            | Inr drawn \<Rightarrow>
                (let projectXY = project drawn;
                     activeRows = filter (is_active sn) rows
                 in case route_anchors centerOfMass projectXY
                           (lookup_feature lc featureByPasture) activeRows of
                      Inl err \<Rightarrow> Inl err
                    | Inr anchors \<Rightarrow>
                        Inr (Some \<lparr>polyPaths = concat (map (feature_paths projectXY) drawn),
                                   segments = segments_from 0 anchors,
                                   routeAnchors = anchors\<rparr>))))"

section \<open>Names as the specification normalizes them\<close>

text \<open>
  The specification keys a feature by its normalized name: case-folded and trimmed of
  the white space at both ends.
\<close>

definition is_space :: "char \<Rightarrow> bool" where
  "is_space c = (c = CHR '' '' \<or> c = CHR 0x09 \<or> c = CHR 0x0A \<or> c = CHR 0x0D)"

definition trim :: "string \<Rightarrow> string" where
  "trim s = rev (dropWhile is_space (rev (dropWhile is_space s)))"

definition normalized :: "(string \<Rightarrow> string) \<Rightarrow> string \<Rightarrow> string" where
  "normalized lc s = lc (trim s)"

section \<open>The schedule as the specification words it\<close>



section \<open>Auxiliary notions\<close>

text \<open>Two rows that differ at most in their start and end date.\<close>

definition same_inputs :: "row \<Rightarrow> row \<Rightarrow> bool" where
  "same_inputs r r' = (r' = r\<lparr>startDate := startDate r', endDate := endDate r'\<rparr>)"

text \<open>The features that the rows of a plan find in the table, in the order of the rows.\<close>

definition feature_of :: "member option \<Rightarrow> feature option" where
  "feature_of m = (case m of Some (Feature f) \<Rightarrow> Some f | _ \<Rightarrow> None)"

definition matched_features :: "(string \<Rightarrow> string) \<Rightarrow> (string \<Rightarrow> member option) \<Rightarrow> row list \<Rightarrow> feature list" where
  "matched_features lc featureByPasture rows =
     List.map_filter (\<lambda>r. feature_of (lookup_feature lc featureByPasture r)) rows"

section \<open>Concrete parameters for evaluation\<close>

text \<open>
  A string conversion that reads no string as a number and a date parser that accepts
  the calendar form only. They instantiate the parameters where a statement is
  evaluated on rows whose fields are numbers and calendar-form dates.
\<close>

definition no_number :: "string \<Rightarrow> jsnum" where
  "no_number s = NaN"

definition no_other_form :: "string \<Rightarrow> jsdate" where
  "no_other_form s = InvalidDate"

text \<open>
  \<open>newRow(overrides)\<close> with the overrides the planner passes (name, acreage, herd size
  and grazing days); the fresh identifier is given.
\<close>

definition newRow :: "string \<Rightarrow> string \<Rightarrow> real \<Rightarrow> real \<Rightarrow> real \<Rightarrow> row" where
  "newRow uuid p a h g =
     \<lparr>row_id = uuid, pasture = p, acreage = JNum (Fin a), herdSize = JNum (Fin h),
      prevPlannedADA = JNull, prevActualADA = JNull, estNativeADA = JNull,
      estPerennialADA = JNull, grazingDays = JNum (Fin g), proposedADA = JNum (Fin 0),
      startDate = [], endDate = [], row_notes = []\<rparr>"

text \<open>
  Arithmetic without rounding and without overflow. It gives what double arithmetic
  gives wherever the exact product, quotient or decimal is itself a double, and it is
  used on such numbers only.
\<close>

definition exact_ops :: float_ops where
  "exact_ops = \<lparr>f_mul = (\<lambda>a b. Fin (a * b)), f_div = (\<lambda>a b. Fin (a / b)), f_near = (\<lambda>a. a)\<rparr>"

text \<open>The lower-casing of a name written with Latin letters without accents.\<close>

definition lower_char :: "char \<Rightarrow> char" where
  "lower_char c = (let n = (of_char c :: nat) in if 65 \<le> n \<and> n \<le> 90 then char_of (n + 32) else c)"

definition ascii_lower :: "string \<Rightarrow> string" where
  "ascii_lower s = map lower_char s"

text \<open>
  A plain object with the given features under its own keys: every other key reads
  \<open>undefined\<close>, except the names of the members that every object inherits.
\<close>

definition inherited_names :: "string list" where
  "inherited_names =
     [''constructor'', ''__proto__'', ''hasOwnProperty'', ''isPrototypeOf'',
      ''propertyIsEnumerable'', ''toLocaleString'', ''toString'', ''valueOf'',
      ''__defineGetter__'', ''__defineSetter__'', ''__lookupGetter__'', ''__lookupSetter__'']"

definition plain_object :: "(string \<rightharpoonup> feature) \<Rightarrow> string \<Rightarrow> member option" where
  "plain_object own k =
     (case own k of
        Some f \<Rightarrow> Some (Feature f)
      | None \<Rightarrow> if k \<in> set inherited_names then Some OtherObject else None)"

text \<open>
  A square plot one unit wide and a feature without geometry; a stand-in for the centre
  of mass (the first corner of the outline, and an exception when there is none); the
  projection that leaves coordinates as they are; a table of two plots.
\<close>

definition plot :: "string \<Rightarrow> real \<Rightarrow> feature" where
  "plot nm w = \<lparr>label = nm, geometry = Some (Polygon [[(w, 0), (w + 1, 0), (w + 1, 1), (w, 1), (w, 0)]])\<rparr>"


definition first_corner :: "feature \<Rightarrow> point option" where
  "first_corner f =
     (case geometry f of
        Some (Polygon ((p # ring) # rings)) \<Rightarrow> Some p
      | _ \<Rightarrow> None)"

definition plain_projection :: "feature list \<Rightarrow> point \<Rightarrow> point" where
  "plain_projection fs p = p"

definition two_plots :: "string \<rightharpoonup> feature" where
  "two_plots = [''ua-e'' \<mapsto> plot ''UA-E'' 0, ''ua-g'' \<mapsto> plot ''UA-G'' 5]"

section \<open>Stocking density\<close>







lemma exact_ops_simps:
  "f_mul exact_ops a b = Fin (a * b)" "f_div exact_ops a b = Fin (a / b)" "f_near exact_ops a = a"
  by (simp_all add: exact_ops_def)



section \<open>The schedule without a season start\<close>

lemma schedule_no_cursor:
  "schedule sn ext [] rs = Inr (map (\<lambda>r. r\<lparr>startDate := [], endDate := []\<rparr>) rs)"
  by (induction rs) simp_all


lemma toISO_invalid: "s = [] \<or> \<not> isValid (parseISO ext s) \<Longrightarrow> toISO ext s = []"
  by (cases "parseISO ext s") (auto simp add: toISO_def)

text \<open>
  Claim C4. When the season start is empty or does not parse to a valid date,
  \<open>recompute\<close> returns (it raises nothing), every row has the empty start and end date,
  and every row carries its proposed density.
\<close>

theorem recompute_invalid_start:
  "planStart = [] \<or> \<not> isValid (parseISO ext planStart) \<Longrightarrow>
   recompute ops sn ext list planStart =
     Inr (map (\<lambda>r. r\<lparr>proposedADA := JNum (computeProposedADA ops sn (grazingDays r) (herdSize r) (acreage r)),
                      startDate := [], endDate := []\<rparr>) list)"
  by (simp add: recompute_def toISO_invalid schedule_no_cursor set_ada_def comp_def)

text \<open>The theorem on two rows with the season start \<open>soon\<close>, which is no date.\<close>

theorem recompute_invalid_start_witness:
  "\<not> isValid (parseISO no_other_form ''soon'') \<and>
   recompute exact_ops no_number no_other_form
      [newRow ''r1'' ''UA-E'' 100 110 10, newRow ''r2'' ''UA-G'' 441 110 0] ''soon'' =
     Inr [(newRow ''r1'' ''UA-E'' 100 110 10)\<lparr>proposedADA := JNum (Fin 11)\<rparr>,
          newRow ''r2'' ''UA-G'' 441 110 0]"
proof -
  have h: "\<not> isValid (parseISO no_other_form ''soon'')"
    by (simp add: parseISO_def no_other_form_def)
  have "computeProposedADA exact_ops no_number (JNum (Fin 10)) (JNum (Fin 110)) (JNum (Fin 100)) = Fin 11"
    by (simp add: computeProposedADA_def toNum_def toFixed2_def exact_ops_simps)
  moreover have "computeProposedADA exact_ops no_number (JNum (Fin 0)) (JNum (Fin 110)) (JNum (Fin 441)) = Fin 0"
    by (simp add: computeProposedADA_def toNum_def toFixed2_def exact_ops_simps)
  ultimately show ?thesis
    using h recompute_invalid_start [of "''soon''" no_other_form exact_ops no_number
        "[newRow ''r1'' ''UA-E'' 100 110 10, newRow ''r2'' ''UA-G'' 441 110 0]"]
    by (simp add: newRow_def)
qed

section \<open>What the schedule reads and writes\<close>

lemma schedule_Cons_Inr:
  assumes "schedule sn ext cur (r # rs) = Inr out"
  obtains (blank) rs' where "cur = []" "schedule sn ext cur rs = Inr rs'"
      "out = r\<lparr>startDate := [], endDate := []\<rparr> # rs'"
  | (dated) en nx rs' where "cur \<noteq> []"
      "(if max 0 (toNum sn (grazingDays r)) > 0
        then addDaysISO ext cur (max 0 (toNum sn (grazingDays r)) - 1) else Inr cur) = Inr en"
      "addDaysISO ext en 1 = Inr nx" "schedule sn ext nx rs = Inr rs'"
      "out = r\<lparr>startDate := cur, endDate := en\<rparr> # rs'"
proof (cases "cur = []")
  case True
  with assms show ?thesis
    by (auto split: sum.splits intro: blank)
next
  case False
  with assms show ?thesis
    by (simp add: Let_def split: sum.splits) (metis dated)
qed

lemma schedule_frame:
  "schedule sn ext cur rs = Inr out \<Longrightarrow> list_all2 same_inputs rs out"
proof (induction rs arbitrary: cur out)
  case Nil
  then show ?case by simp
next
  case (Cons r rs)
  from Cons.prems show ?case
  proof (cases rule: schedule_Cons_Inr)
    case (blank rs')
    with Cons.IH show ?thesis by (simp add: same_inputs_def)
  next
    case (dated en nx rs')
    with Cons.IH show ?thesis by (simp add: same_inputs_def)
  qed
qed

lemma schedule_again:
  "schedule sn ext cur rs = Inr out \<Longrightarrow> schedule sn ext cur out = Inr out"
proof (induction rs arbitrary: cur out)
  case Nil
  then show ?case by simp
next
  case (Cons r rs)
  from Cons.prems show ?case
  proof (cases rule: schedule_Cons_Inr)
    case (blank rs')
    with Cons.IH [of cur rs'] show ?thesis by simp
  next
    case (dated en nx rs')
    with Cons.IH [of nx rs'] show ?thesis by (simp add: Let_def)
  qed
qed

lemma set_ada_same_inputs:
  "same_inputs (set_ada ops sn r) r' \<Longrightarrow> set_ada ops sn r' = r'"
  by (cases r, cases r') (auto simp add: same_inputs_def set_ada_def)

lemma set_ada_fixed:
  "list_all2 same_inputs (map (set_ada ops sn) l) out \<Longrightarrow> map (set_ada ops sn) out = out"
proof (induction l arbitrary: out)
  case Nil
  then show ?case by simp
next
  case (Cons r l)
  then obtain r' out' where "out = r' # out'" "same_inputs (set_ada ops sn r) r'"
      "list_all2 same_inputs (map (set_ada ops sn) l) out'"
    by (auto simp add: list_all2_Cons1)
  with Cons.IH show ?case by (simp add: set_ada_same_inputs)
qed

text \<open>
  Claim C3. Running \<open>recompute\<close> on its own result, with the same season start, gives
  that result again; when the first run raises, so does the composition. The function
  has no argument besides the row list and the season start (and the library
  parameters), so equal inputs give equal results.
\<close>

theorem recompute_idempotent:
  "(case recompute ops sn ext list planStart of
      Inl err \<Rightarrow> Inl err
    | Inr out \<Rightarrow> recompute ops sn ext out planStart) = recompute ops sn ext list planStart"
proof (cases "recompute ops sn ext list planStart")
  case (Inl err)
  then show ?thesis by simp
next
  case (Inr out)
  then have s: "schedule sn ext (toISO ext planStart) (map (set_ada ops sn) list) = Inr out"
    by (simp add: recompute_def)
  from set_ada_fixed [OF schedule_frame [OF s]] have "map (set_ada ops sn) out = out" .
  with schedule_again [OF s] have "recompute ops sn ext out planStart = Inr out"
    by (simp add: recompute_def)
  with Inr show ?thesis by simp
qed

lemma schedule_derived:
  "list_all2 (\<lambda>a b. grazingDays a = grazingDays b \<and> proposedADA a = proposedADA b) rs1 rs2 \<Longrightarrow>
   map_sum id (map (\<lambda>r. (proposedADA r, startDate r, endDate r))) (schedule sn ext cur rs1) =
   map_sum id (map (\<lambda>r. (proposedADA r, startDate r, endDate r))) (schedule sn ext cur rs2)"
proof (induction rs1 rs2 arbitrary: cur rule: list_all2_induct)
  case Nil
  then show ?case by simp
next
  case (Cons a rs1 b rs2)
  show ?case
  proof (cases "cur = []")
    case True
    with Cons.IH [of cur] Cons.hyps(1) show ?thesis
      by (cases "schedule sn ext cur rs1"; cases "schedule sn ext cur rs2") simp_all
  next
    case False
    define en where "en = (if max 0 (toNum sn (grazingDays a)) > 0
        then addDaysISO ext cur (max 0 (toNum sn (grazingDays a)) - 1) else Inr cur)"
    have sa: "schedule sn ext cur (a # rs1) =
        (case en of Inl err \<Rightarrow> Inl err
         | Inr e \<Rightarrow> (case addDaysISO ext e 1 of Inl err \<Rightarrow> Inl err
             | Inr nx \<Rightarrow> (case schedule sn ext nx rs1 of Inl err \<Rightarrow> Inl err
                 | Inr rs' \<Rightarrow> Inr (a\<lparr>startDate := cur, endDate := e\<rparr> # rs'))))"
      using False by (simp add: en_def Let_def)
    have sb: "schedule sn ext cur (b # rs2) =
        (case en of Inl err \<Rightarrow> Inl err
         | Inr e \<Rightarrow> (case addDaysISO ext e 1 of Inl err \<Rightarrow> Inl err
             | Inr nx \<Rightarrow> (case schedule sn ext nx rs2 of Inl err \<Rightarrow> Inl err
                 | Inr rs' \<Rightarrow> Inr (b\<lparr>startDate := cur, endDate := e\<rparr> # rs'))))"
      using False Cons.hyps(1) by (simp add: en_def Let_def)
    show ?thesis
    proof (cases en)
      case (Inl err)
      then show ?thesis by (simp add: sa sb del: schedule.simps)
    next
      case (Inr e)
      note e = this
      show ?thesis
      proof (cases "addDaysISO ext e 1")
        case (Inl err)
        with e show ?thesis by (simp add: sa sb del: schedule.simps)
      next
        case (Inr nx)
        with e Cons.hyps(1) Cons.IH [of nx] show ?thesis
          by (cases "schedule sn ext nx rs1"; cases "schedule sn ext nx rs2")
             (simp_all add: sa sb del: schedule.simps)
      qed
    qed
  qed
qed

text \<open>
  Claim C7. Two row lists of the same length whose rows agree pairwise on acreage, herd
  size and grazing days get, for the same season start, pairwise the same proposed
  density, start date and end date (or both runs raise), whatever their names, notes and
  other fields are.
\<close>

theorem recompute_derived_fields:
  "list_all2 (\<lambda>a b. acreage a = acreage b \<and> herdSize a = herdSize b \<and> grazingDays a = grazingDays b) l1 l2 \<Longrightarrow>
   map_sum id (map (\<lambda>r. (proposedADA r, startDate r, endDate r))) (recompute ops sn ext l1 planStart) =
   map_sum id (map (\<lambda>r. (proposedADA r, startDate r, endDate r))) (recompute ops sn ext l2 planStart)"
proof -
  assume "list_all2 (\<lambda>a b. acreage a = acreage b \<and> herdSize a = herdSize b \<and> grazingDays a = grazingDays b) l1 l2"
  then have "list_all2 (\<lambda>a b. grazingDays a = grazingDays b \<and> proposedADA a = proposedADA b)
      (map (set_ada ops sn) l1) (map (set_ada ops sn) l2)"
    by (simp add: list_all2_map1 list_all2_map2 set_ada_def list_all2_mono)
  from schedule_derived [OF this] show ?thesis by (simp add: recompute_def)
qed

text \<open>
  The theorem on two plans that differ in names, notes and identifiers and agree on the
  numbers, with the season start 2025-03-01: their derived fields are the same.
\<close>

theorem recompute_derived_fields_witness:
  "list_all2 (\<lambda>a b. acreage a = acreage b \<and> herdSize a = herdSize b \<and> grazingDays a = grazingDays b)
     [newRow ''r1'' ''UA-E'' 100 110 10, newRow ''r2'' ''UA-G'' 441 110 0]
     [(newRow ''s1'' ''North'' 100 110 10)\<lparr>row_notes := ''wet''\<rparr>, newRow ''s2'' ''South'' 441 110 0] \<and>
   map_sum id (map (\<lambda>r. (proposedADA r, startDate r, endDate r)))
     (recompute exact_ops no_number no_other_form
        [newRow ''r1'' ''UA-E'' 100 110 10, newRow ''r2'' ''UA-G'' 441 110 0] ''2025-03-01'') =
   map_sum id (map (\<lambda>r. (proposedADA r, startDate r, endDate r)))
     (recompute exact_ops no_number no_other_form
        [(newRow ''s1'' ''North'' 100 110 10)\<lparr>row_notes := ''wet''\<rparr>, newRow ''s2'' ''South'' 441 110 0]
        ''2025-03-01'')"
proof -
  have h: "list_all2 (\<lambda>a b. acreage a = acreage b \<and> herdSize a = herdSize b \<and> grazingDays a = grazingDays b)
     [newRow ''r1'' ''UA-E'' 100 110 10, newRow ''r2'' ''UA-G'' 441 110 0]
     [(newRow ''s1'' ''North'' 100 110 10)\<lparr>row_notes := ''wet''\<rparr>, newRow ''s2'' ''South'' 441 110 0]"
    by (simp add: newRow_def)
  from h recompute_derived_fields [OF h] show ?thesis by blast
qed

section \<open>The static map: what is drawn\<close>

lemma bbox_features_map: "bbox_features (map Feature fs) = Inr fs"
  by (induction fs) simp_all

lemma picked_matched:
  "\<forall>r\<in>set rows. look r \<noteq> Some OtherObject \<Longrightarrow>
   List.map_filter look rows = map Feature (List.map_filter (\<lambda>r. feature_of (look r)) rows)"
proof (induction rows)
  case Nil
  then show ?case by (simp add: List.map_filter_simps)
next
  case (Cons r rows)
  then have ih: "List.map_filter look rows = map Feature (List.map_filter (\<lambda>r. feature_of (look r)) rows)"
    by simp
  from Cons.prems have n: "look r \<noteq> Some OtherObject" by simp
  show ?case
  proof (cases "look r")
    case None
    with ih show ?thesis by (simp add: List.map_filter_simps feature_of_def)
  next
    case (Some m)
    with n obtain f where "m = Feature f" by (cases m) simp_all
    with Some ih show ?thesis by (simp add: List.map_filter_simps feature_of_def)
  qed
qed

lemma map_filter_eq_Nil: "List.map_filter f xs = [] \<longleftrightarrow> (\<forall>r\<in>set xs. f r = None)"
  by (induction xs) (auto simp add: List.map_filter_simps split: option.splits)

lemma route_anchors_return:
  "\<forall>r\<in>set rs. look r \<noteq> Some OtherObject \<and> (\<forall>f. look r = Some (Feature f) \<longrightarrow> com f \<noteq> None) \<Longrightarrow>
   \<exists>as. route_anchors com pr look rs = Inr as"
proof (induction rs)
  case Nil
  then show ?case by simp
next
  case (Cons r rs)
  then obtain as where as: "route_anchors com pr look rs = Inr as" by auto
  from Cons.prems have n: "look r \<noteq> Some OtherObject"
    and c: "\<forall>f. look r = Some (Feature f) \<longrightarrow> com f \<noteq> None" by simp_all
  show ?case
  proof (cases "look r")
    case None
    with as show ?thesis by simp
  next
    case (Some m)
    with n obtain f where f: "m = Feature f" by (cases m) simp_all
    with Some c obtain cm where "com f = Some cm" by auto
    with Some f as show ?thesis by simp
  qed
qed


text \<open>
  Claim C8, as the code has it. A row matches by its lower-cased name as typed (it is
  not trimmed). Take a plan in which no row finds a value that is not a feature, and in
  which the centre of mass exists for the feature of every row with a positive duration,
  so that drawing does not raise. When at least one row finds something in the table,
  the scene exists and its outlines are those of the features the rows find, in row
  order. When no row finds anything, the outlines are those of all loaded features (and
  nothing is drawn when none is loaded).
\<close>

theorem StaticMap_outlines:
  assumes "\<forall>r\<in>set rows. lookup_feature lc tbl r \<noteq> Some OtherObject"
    and "\<forall>r\<in>set rows. is_active sn r \<longrightarrow>
           (\<forall>f. lookup_feature lc tbl r = Some (Feature f) \<longrightarrow> com f \<noteq> None)"
  shows
   "((\<exists>r\<in>set rows. lookup_feature lc tbl r \<noteq> None) \<longrightarrow>
      (\<exists>sc. StaticMap lc sn com project rows tbl allFeatures = Inr (Some sc) \<and>
         polyPaths sc =
           concat (map (feature_paths (project (matched_features lc tbl rows)))
                       (matched_features lc tbl rows)))) \<and>
    ((\<forall>r\<in>set rows. lookup_feature lc tbl r = None) \<longrightarrow>
      (if allFeatures = [] then StaticMap lc sn com project rows tbl allFeatures = Inr None
       else (\<exists>sc. StaticMap lc sn com project rows tbl allFeatures = Inr (Some sc) \<and>
         polyPaths sc = concat (map (feature_paths (project allFeatures)) allFeatures))))"
proof (intro conjI impI)
  let ?look = "lookup_feature lc tbl"
  have ret: "\<And>pr. \<exists>as. route_anchors com pr ?look (filter (is_active sn) rows) = Inr as"
    using assms by (intro route_anchors_return) auto
  have pm: "List.map_filter ?look rows = map Feature (matched_features lc tbl rows)"
    unfolding matched_features_def by (rule picked_matched [OF assms(1)])
  {
    assume "\<exists>r\<in>set rows. ?look r \<noteq> None"
    then have ne: "List.map_filter ?look rows \<noteq> []"
      by (simp add: map_filter_eq_Nil)
    then have f: "features lc rows tbl allFeatures = map Feature (matched_features lc tbl rows)"
      by (simp add: features_def Let_def pm)
    from ne pm have ne': "map Feature (matched_features lc tbl rows) \<noteq> []" by simp
    from ret obtain as where
      "route_anchors com (project (matched_features lc tbl rows)) ?look (filter (is_active sn) rows) = Inr as"
      by blast
    with ne' show "\<exists>sc. StaticMap lc sn com project rows tbl allFeatures = Inr (Some sc) \<and>
         polyPaths sc =
           concat (map (feature_paths (project (matched_features lc tbl rows)))
                       (matched_features lc tbl rows))"
      unfolding StaticMap_def f by (simp add: bbox_features_map Let_def)
  }
  {
    assume "\<forall>r\<in>set rows. ?look r = None"
    then have "List.map_filter ?look rows = []"
      by (simp add: map_filter_eq_Nil)
    then have f: "features lc rows tbl allFeatures = map Feature allFeatures"
      by (simp add: features_def Let_def)
    from ret obtain as where
      "route_anchors com (project allFeatures) ?look (filter (is_active sn) rows) = Inr as"
      by blast
    then show "if allFeatures = [] then StaticMap lc sn com project rows tbl allFeatures = Inr None
       else (\<exists>sc. StaticMap lc sn com project rows tbl allFeatures = Inr (Some sc) \<and>
         polyPaths sc = concat (map (feature_paths (project allFeatures)) allFeatures))"
      unfolding StaticMap_def f by (simp add: bbox_features_map Let_def)
  }
qed


lemma lower_UA_E: "ascii_lower ''UA-E'' = ''ua-e''"
  by code_simp

lemma lower_UA_E_space: "ascii_lower ''UA-E '' = ''ua-e ''"
  by code_simp

lemma lower_HQ: "ascii_lower ''HQ'' = ''hq''"
  by code_simp

lemma lower_constructor: "ascii_lower ''constructor'' = ''constructor''"
  by code_simp

lemma look_UA_E:
  "lookup_feature ascii_lower (plain_object two_plots) (newRow uu ''UA-E'' a h g) = Some (Feature (plot ''UA-E'' 0))"
  by (simp add: lookup_feature_def newRow_def lower_UA_E plain_object_def two_plots_def)

lemma look_UA_E_space:
  "lookup_feature ascii_lower (plain_object two_plots) (newRow uu ''UA-E '' a h g) = None"
  by (simp add: lookup_feature_def newRow_def lower_UA_E_space plain_object_def two_plots_def
        inherited_names_def)

lemma look_HQ:
  "lookup_feature ascii_lower (plain_object two_plots) (newRow uu ''HQ'' a h g) = None"
  by (simp add: lookup_feature_def newRow_def lower_HQ plain_object_def two_plots_def
        inherited_names_def)

lemma look_constructor:
  "lookup_feature ascii_lower (plain_object two_plots) (newRow uu ''constructor'' a h g) = Some OtherObject"
  by (simp add: lookup_feature_def newRow_def lower_constructor plain_object_def two_plots_def
        inherited_names_def)

lemma active_newRow: "is_active no_number (newRow uu p a h g) = (0 < g)"
  by (simp add: is_active_def newRow_def)

lemma plot_paths:
  "feature_paths (plain_projection fs) (plot nm w) = [[[(w, 0), (w + 1, 0), (w + 1, 1), (w, 1), (w, 0)]]]"
  by (simp add: plot_def pathFromPolygonCoords_def plain_projection_def)

lemma first_corner_plot: "first_corner (plot nm w) = Some (w, 0)"
  by (simp add: first_corner_def plot_def)


text \<open>
  Claim C9 fails on the code. The stop named \<open>constructor\<close> resolves to no loaded
  feature, so by the claim it is absent and the stop \<open>UA-E\<close> keeps its anchor; but
  reading the table at \<open>constructor\<close> gives the member every object inherits, it is kept
  among the features to draw, and \<open>turf.bbox\<close> raises: no scene is drawn.
\<close>

theorem StaticMap_inherited_member_raises:
  "StaticMap ascii_lower no_number first_corner plain_projection
     [newRow ''r1'' ''UA-E'' 100 110 10, newRow ''r2'' ''constructor'' 25 110 3]
     (plain_object two_plots) [plot ''UA-E'' 0, plot ''UA-G'' 5]
   = Inl TypeError"
  by (simp add: StaticMap_def features_def List.map_filter_simps look_UA_E look_constructor)

text \<open>
  Claim C8 as written fails for a name with white space at an end. The normalized name
  of \<open>UA-E\<close> followed by a blank is \<open>ua-e\<close>, the key of a loaded feature, so the claim
  has only that feature drawn; the code looks the untrimmed name up, finds nothing and
  draws both loaded features.
\<close>

theorem StaticMap_untrimmed_name_counterexample:
  "normalized ascii_lower ''UA-E '' = ''ua-e'' \<and>
   plain_object two_plots ''ua-e'' = Some (Feature (plot ''UA-E'' 0)) \<and>
   map_sum id (map_option polyPaths)
     (StaticMap ascii_lower no_number first_corner plain_projection
        [newRow ''r1'' ''UA-E '' 100 110 10] (plain_object two_plots) [plot ''UA-E'' 0, plot ''UA-G'' 5])
   = Inr (Some [[[(0, 0), (1, 0), (1, 1), (0, 1), (0, 0)]], [[(5, 0), (6, 0), (6, 1), (5, 1), (5, 0)]]])"
proof -
  have "trim ''UA-E '' = ''UA-E''"
    by (simp add: trim_def is_space_def)
  then have a: "normalized ascii_lower ''UA-E '' = ''ua-e''"
    by (simp add: normalized_def lower_UA_E)
  have b: "plain_object two_plots ''ua-e'' = Some (Feature (plot ''UA-E'' 0))"
    by (simp add: plain_object_def two_plots_def)
  have c: "map_sum id (map_option polyPaths)
     (StaticMap ascii_lower no_number first_corner plain_projection
        [newRow ''r1'' ''UA-E '' 100 110 10] (plain_object two_plots) [plot ''UA-E'' 0, plot ''UA-G'' 5])
   = Inr (Some [[[(0, 0), (1, 0), (1, 1), (0, 1), (0, 0)]], [[(5, 0), (6, 0), (6, 1), (5, 1), (5, 0)]]])"
    by (simp add: StaticMap_def features_def List.map_filter_simps look_UA_E_space active_newRow
          plot_paths del: feature_paths.simps)
  from a b c show ?thesis by (intro conjI)
qed


text \<open>
  The theorem on a plan with one matching row, which draws that plot only, and on a plan
  with no matching row, which draws the loaded plot.
\<close>

theorem StaticMap_outlines_witness:
  "map (lookup_feature ascii_lower (plain_object two_plots))
     [newRow ''r1'' ''UA-E'' 100 110 10, newRow ''r2'' ''HQ'' 25 110 0]
     = [Some (Feature (plot ''UA-E'' 0)), None] \<and>
   (\<exists>sc. StaticMap ascii_lower no_number first_corner plain_projection
        [newRow ''r1'' ''UA-E'' 100 110 10, newRow ''r2'' ''HQ'' 25 110 0]
        (plain_object two_plots) [plot ''Far'' 9] = Inr (Some sc) \<and>
      polyPaths sc = [[[(0, 0), (1, 0), (1, 1), (0, 1), (0, 0)]]]) \<and>
   (\<exists>sc. StaticMap ascii_lower no_number first_corner plain_projection
        [newRow ''r2'' ''HQ'' 25 110 0] (plain_object two_plots) [plot ''Far'' 9] = Inr (Some sc) \<and>
      polyPaths sc = [[[(9, 0), (10, 0), (10, 1), (9, 1), (9, 0)]]])"
proof -
  let ?tbl = "plain_object two_plots"
  let ?rows = "[newRow ''r1'' ''UA-E'' 100 110 10, newRow ''r2'' ''HQ'' 25 110 0]"
  let ?hq = "[newRow ''r2'' ''HQ'' 25 110 0]"
  have l: "map (lookup_feature ascii_lower ?tbl) ?rows = [Some (Feature (plot ''UA-E'' 0)), None]"
    by (simp add: look_UA_E look_HQ)
  have h1: "\<forall>r\<in>set ?rows. lookup_feature ascii_lower ?tbl r \<noteq> Some OtherObject"
    by (simp add: look_UA_E look_HQ)
  have h2: "\<forall>r\<in>set ?rows. is_active no_number r \<longrightarrow>
      (\<forall>f. lookup_feature ascii_lower ?tbl r = Some (Feature f) \<longrightarrow> first_corner f \<noteq> None)"
    by (simp add: look_UA_E look_HQ first_corner_plot)
  have e: "\<exists>r\<in>set ?rows. lookup_feature ascii_lower ?tbl r \<noteq> None"
    by (simp add: look_UA_E)
  have m: "matched_features ascii_lower ?tbl ?rows = [plot ''UA-E'' 0]"
    by (simp add: matched_features_def List.map_filter_simps look_UA_E look_HQ feature_of_def)
  note t1 = StaticMap_outlines [OF h1 h2, of plain_projection "[plot ''Far'' 9]"]
  from t1 [THEN conjunct1, THEN mp, OF e]
  have a: "\<exists>sc. StaticMap ascii_lower no_number first_corner plain_projection ?rows ?tbl [plot ''Far'' 9]
        = Inr (Some sc) \<and>
      polyPaths sc = [[[(0, 0), (1, 0), (1, 1), (0, 1), (0, 0)]]]"
    unfolding m by (simp add: plot_paths del: feature_paths.simps)
  have g1: "\<forall>r\<in>set ?hq. lookup_feature ascii_lower ?tbl r \<noteq> Some OtherObject"
    by (simp add: look_HQ)
  have g2: "\<forall>r\<in>set ?hq. is_active no_number r \<longrightarrow>
      (\<forall>f. lookup_feature ascii_lower ?tbl r = Some (Feature f) \<longrightarrow> first_corner f \<noteq> None)"
    by (simp add: look_HQ)
  have n: "\<forall>r\<in>set ?hq. lookup_feature ascii_lower ?tbl r = None"
    by (simp add: look_HQ)
  note t2 = StaticMap_outlines [OF g1 g2, of plain_projection "[plot ''Far'' 9]"]
  from t2 [THEN conjunct2, THEN mp, OF n]
  have b: "\<exists>sc. StaticMap ascii_lower no_number first_corner plain_projection ?hq ?tbl [plot ''Far'' 9]
        = Inr (Some sc) \<and>
      polyPaths sc = [[[(9, 0), (10, 0), (10, 1), (9, 1), (9, 0)]]]"
    by (simp add: plot_paths del: feature_paths.simps)
  from l a b show ?thesis by (intro conjI)
qed

section \<open>The summer window\<close>

lemma parse_0999_08_01: "parseISO no_other_form ''0999-08-01'' = Date (Civil 999 8 1) 0"
  by (simp add: parseISO_def digit_val_def valid_civil_def days_in_month_def)

lemma parse_0999_08_02: "parseISO no_other_form ''0999-08-02'' = Date (Civil 999 8 2) 0"
  by (simp add: parseISO_def digit_val_def valid_civil_def days_in_month_def)

lemma text_999: "int_text 999 = ''999''"
  by (simp add: int_text_def dec.simps)

lemma parse_999_summer:
  "parseISO no_other_form ''999-07-15'' = InvalidDate" "parseISO no_other_form ''999-09-15'' = InvalidDate"
  by (simp_all add: parseISO_def no_other_form_def)

lemma overlaps_0999: "overlapsSummerWindow no_other_form ''0999-08-01'' ''0999-08-02'' = False"
  by (simp add: overlapsSummerWindow_def parse_0999_08_01 parse_0999_08_02
        summer_loop.simps [of _ _ _ 999 999] summer_loop.simps [of _ _ _ 1000 999]
        text_999 parse_999_summer)

lemma day_numbers_999:
  "day_number (Civil 999 7 15) \<le> day_number (Civil 999 8 1)"
  "day_number (Civil 999 8 2) \<le> day_number (Civil 999 9 15)"
  by (simp_all add: day_number_def days_before_month_def days_in_month_def upt_rec)


lemma parse_2025:
  "parseISO no_other_form ''2025-07-01'' = Date (Civil 2025 7 1) 0"
  "parseISO no_other_form ''2025-07-20'' = Date (Civil 2025 7 20) 0"
  "parseISO no_other_form ''2025-01-01'' = Date (Civil 2025 1 1) 0"
  "parseISO no_other_form ''2025-02-01'' = Date (Civil 2025 2 1) 0"
  "parseISO no_other_form ''2025-07-15'' = Date (Civil 2025 7 15) 0"
  "parseISO no_other_form ''2025-09-15'' = Date (Civil 2025 9 15) 0"
  "parseISO no_other_form ''2025-03-01'' = Date (Civil 2025 3 1) 0"
  by (simp_all add: parseISO_def digit_val_def valid_civil_def days_in_month_def)

lemma text_2025: "int_text 2025 = ''2025''"
  by (simp add: int_text_def dec.simps)

lemma day_number_2025:
  "day_number (Civil 2025 7 1) = 20270" "day_number (Civil 2025 7 20) = 20289"
  "day_number (Civil 2025 1 1) = 20089" "day_number (Civil 2025 2 1) = 20120"
  "day_number (Civil 2025 7 15) = 20284" "day_number (Civil 2025 9 15) = 20346"
  "day_number (Civil 2025 3 1) = 20148"
  by (simp_all add: day_number_def days_before_year_def days_before_month_def days_in_month_def
        is_leap_def upt_rec)

text \<open>The two examples of the specification, in the year 2025.\<close>

lemma overlaps_2025_july: "overlapsSummerWindow no_other_form ''2025-07-01'' ''2025-07-20''"
  by (simp add: overlapsSummerWindow_def parse_2025 summer_loop.simps [of _ _ _ 2025 2025]
        text_2025 timeval_def day_number_def days_before_year_def days_before_month_def
        days_in_month_def is_leap_def upt_rec)

lemma overlaps_2025_january: "\<not> overlapsSummerWindow no_other_form ''2025-01-01'' ''2025-02-01''"
  by (simp add: overlapsSummerWindow_def parse_2025 summer_loop.simps [of _ _ _ 2025 2025]
        summer_loop.simps [of _ _ _ 2026 2025] text_2025 timeval_def day_number_def days_before_year_def days_before_month_def
        days_in_month_def is_leap_def upt_rec)

text \<open>
  Claim C6 fails on the code for a year below 1000. The days 0999-08-01 and 0999-08-02
  lie inside the window from July 15 to September 15 of the year 999, so the claim makes
  the result true. The loop builds the window's ends from the year without leading
  zeros, \<open>999-07-15\<close> and \<open>999-09-15\<close>, which are no dates, and the result is false.
\<close>

theorem overlapsSummerWindow_year_999:
  "overlapsSummerWindow no_other_form ''0999-08-01'' ''0999-08-02'' = False \<and>
   parseISO no_other_form ''0999-08-01'' = Date (Civil 999 8 1) 0 \<and>
   parseISO no_other_form ''0999-08-02'' = Date (Civil 999 8 2) 0 \<and>
   day_number (Civil 999 7 15) \<le> day_number (Civil 999 8 1) \<and>
   day_number (Civil 999 8 2) \<le> day_number (Civil 999 9 15)"
  by (simp only: overlaps_0999 parse_0999_08_01 parse_0999_08_02 day_numbers_999 simp_thms)

section \<open>The rows that the schedule returns\<close>

lemma ada_huge:
  "set_ada exact_ops no_number (newRow ''r1'' ''UA-E'' 100 110 200000000)
     = (newRow ''r1'' ''UA-E'' 100 110 200000000)\<lparr>proposedADA := JNum (Fin 220000000)\<rparr>"
  by (simp add: set_ada_def newRow_def computeProposedADA_def toNum_def toFixed2_def exact_ops_def)

text \<open>
  Claim C10 fails on the code for a duration that pushes a date out of the range of
  \<open>Date\<close>. With the season start 2025-03-01 and one row of 200,000,000 days,
  \<open>addDays\<close> gives an invalid date, \<open>addDaysISO\<close> formats it unchecked, and
  \<open>recompute\<close> raises instead of returning a list.
\<close>

theorem recompute_huge_duration_raises:
  "recompute exact_ops no_number no_other_form [newRow ''r1'' ''UA-E'' 100 110 200000000] ''2025-03-01''
     = Inl RangeError"
proof -
  have t: "toISO no_other_form ''2025-03-01'' = ''2025-03-01''"
    by (simp add: toISO_def parse_2025 format_civil_def addLeadingZeros_def dec.simps)
  have "trunc (1 + 199999999) = 200000000" by (simp add: trunc_def)
  then have "addDays (Date (Civil 2025 3 1) 0) 199999999 = InvalidDate"
    by (simp add: setDate_def in_time_range_def day_number_def days_before_year_def
          days_before_month_def days_in_month_def is_leap_def upt_rec)
  then have a: "addDaysISO no_other_form ''2025-03-01'' 199999999 = Inl RangeError"
    by (simp add: addDaysISO_def parse_2025)
  have g: "toNum no_number (grazingDays (newRow ''r1'' ''UA-E'' 100 110 200000000)) = 200000000"
    by (simp add: newRow_def toNum_def)
  show ?thesis
    by (simp add: recompute_def t ada_huge g a Let_def)
qed

text \<open>Whenever \<open>recompute\<close> returns, it returns the rows with new derived fields only.\<close>

lemma recompute_frame:
  assumes "recompute ops sn ext list planStart = Inr out"
  shows "length out = length list \<and>
     (\<forall>i<length list.
        out ! i = (list ! i)\<lparr>proposedADA := proposedADA (out ! i), startDate := startDate (out ! i),
                              endDate := endDate (out ! i)\<rparr>)"
proof -
  from assms have "list_all2 same_inputs (map (set_ada ops sn) list) out"
    by (simp add: recompute_def schedule_frame)
  then have l: "length out = length list"
    and n: "\<And>i. i < length list \<Longrightarrow> same_inputs (set_ada ops sn (list ! i)) (out ! i)"
    by (auto simp add: list_all2_conv_all_nth)
  have "\<And>i. i < length list \<Longrightarrow>
      out ! i = (list ! i)\<lparr>proposedADA := proposedADA (out ! i), startDate := startDate (out ! i),
                            endDate := endDate (out ! i)\<rparr>"
  proof -
    fix i assume "i < length list"
    from n [OF this] show "out ! i = (list ! i)\<lparr>proposedADA := proposedADA (out ! i),
        startDate := startDate (out ! i), endDate := endDate (out ! i)\<rparr>"
      by (cases "list ! i", cases "out ! i") (auto simp add: same_inputs_def set_ada_def)
  qed
  with l show ?thesis by simp
qed

section \<open>The windows of the schedule\<close>

subsection \<open>The calendar\<close>























subsection \<open>Printing a date and reading it back\<close>





















subsection \<open>One step of the loop\<close>












subsection \<open>The example of the specification\<close>




subsection \<open>The end of the year 9999\<close>











end
